theory Spec2Isabelle
  imports Complex_Main
begin

section \<open>Dynamically typed values\<close>

text \<open>
  The handler stores and inspects values of Go's empty interface type \<open>any\<close>.  The
  dynamic types that occur are the ones \<open>encoding/json\<close> decodes into
  (\<open>nil\<close>, \<open>bool\<close>, \<open>float64\<close>, \<open>string\<close>, \<open>[]any\<close>, \<open>map[string]any\<close>) and the
  Go \<open>int\<close> that \<open>handle\<close> itself stores under the key \<open>id\<close>.  A decoded JSON
  number is a finite binary fraction; it is carried as the rational it denotes.
  The dynamic type is kept because the code branches on it: a type assertion
  \<open>v.(float64)\<close> on a value whose dynamic type is \<open>int\<close> panics.
\<close>

datatype any =
    VNil
  | VBool bool
  | VFloat64 rat
  | VString string
  | VSlice "any list"
  | VMap "(string \<times> any) list"
  | VInt int

section \<open>Schemas and the constraint resolver\<close>

text \<open>
  The fields of \<open>openapi3.Schema\<close> that \<open>handler.go\<close> reads.  A \<open>*SchemaRef\<close> is
  modelled by its \<open>Value\<close> field, \<open>None\<close> being the nil pointer; in \<open>Properties\<close> a
  missing key is the outer \<open>None\<close>.  \<open>Enum\<close> holds, for each enum member \<open>e\<close>, the
  text \<open>fmt.Sprintf("%v", e)\<close>, the only thing the code reads of it.  Schemas are
  finite trees here: a cyclic document, on which the Go recursion does not
  return, has no counterpart.
\<close>

datatype Schema = Schema
  (Required: "string list")
  (Properties: "string \<Rightarrow> Schema option option")
  (Type: string)
  (Nullable: bool)
  (MinLength: nat)
  (MaxLength: "nat option")
  (Enum: "string list")
  (MinItems: nat)
  (AllOf: "Schema option list")
  (OneOf: "Schema option list")
  (AnyOf: "Schema option list")

type_synonym props = "string \<rightharpoonup> Schema"

text \<open>
  Lines 341-345: \<open>props[name] = ref.Value\<close> for every entry of
  \<open>schema.Properties\<close> whose reference and value are not nil.
\<close>

definition ownProps :: "(string \<Rightarrow> Schema option option) \<Rightarrow> props" where
  "ownProps ps = (\<lambda>name. case ps name of Some (Some v) \<Rightarrow> Some v | _ \<Rightarrow> None)"

text \<open>
  \<open>collectSchemaConstraints\<close> (lines 331-386).  The three loops are folds over the
  branch lists with the pair \<open>(required, props)\<close> as accumulator; a branch whose
  \<open>Value\<close> is nil is skipped (\<open>continue\<close>).  \<open>for k, v := range p { props[k] = v }\<close>
  is \<open>props ++ p\<close> (the right map wins), and the guarded assignment of the
  one-of and any-of loops, which writes only keys not yet in \<open>props\<close>, is
  \<open>p ++ props\<close>.  Neither depends on the order in which \<open>range\<close> visits \<open>p\<close>.
\<close>

fun collectSchemaConstraints :: "Schema option \<Rightarrow> string list \<times> props" where
  "collectSchemaConstraints None = ([], Map.empty)"
| "collectSchemaConstraints (Some (Schema req ps ty nl mn mx en mi allOf oneOf anyOf)) =
     (let acc0 = (req, ownProps ps);
          acc1 = fold (\<lambda>sub (required, props).
                   case sub of None \<Rightarrow> (required, props)
                   | Some v \<Rightarrow> (case collectSchemaConstraints (Some v) of
                                (r, p) \<Rightarrow> (required @ r, props ++ p)))
                 allOf acc0;
          acc2 = fold (\<lambda>sub (required, props).
                   case sub of None \<Rightarrow> (required, props)
                   | Some v \<Rightarrow> (case collectSchemaConstraints (Some v) of
                                (r, p) \<Rightarrow> (required, p ++ props)))
                 oneOf acc1;
          acc3 = fold (\<lambda>sub (required, props).
                   case sub of None \<Rightarrow> (required, props)
                   | Some v \<Rightarrow> (case collectSchemaConstraints (Some v) of
                                (r, p) \<Rightarrow> (required, p ++ props)))
                 anyOf acc2
      in acc3)"

text \<open>The loop of lines 348-357 and the loop shape of lines 362-383, named.\<close>

definition allOfLoop ::
  "Schema option list \<Rightarrow> string list \<times> props \<Rightarrow> string list \<times> props" where
  "allOfLoop subs acc =
     fold (\<lambda>sub (required, props).
             case sub of None \<Rightarrow> (required, props)
             | Some v \<Rightarrow> (case collectSchemaConstraints (Some v) of
                          (r, p) \<Rightarrow> (required @ r, props ++ p)))
          subs acc"

definition branchLoop ::
  "Schema option list \<Rightarrow> string list \<times> props \<Rightarrow> string list \<times> props" where
  "branchLoop subs acc =
     fold (\<lambda>sub (required, props).
             case sub of None \<Rightarrow> (required, props)
             | Some v \<Rightarrow> (case collectSchemaConstraints (Some v) of
                          (r, p) \<Rightarrow> (required, p ++ props)))
          subs acc"

text \<open>The first defined entry of a list of lookups.\<close>

fun firstDefined :: "'a option list \<Rightarrow> 'a option" where
  "firstDefined [] = None"
| "firstDefined (None # xs) = firstDefined xs"
| "firstDefined (Some v # xs) = Some v"

section \<open>Property and body validation\<close>

text \<open>
  A violation is one message of \<open>validateBody\<close> or \<open>checkType\<close>; each constructor
  stands for one format string of the source and carries its arguments:
  \<^item> \<open>InvalidJSON err\<close>: \<open>Invalid JSON body: %s\<close>;
  \<^item> \<open>MissingRequired f\<close>: \<open>request.body Request body must have required property '%s'\<close>;
  \<^item> \<open>MustNotBeNull n\<close>: \<open>Property "%s" must not be null\<close>;
  \<^item> \<open>MustBeString n\<close>: \<open>Property "%s" must be a string\<close>;
  \<^item> \<open>TooShort n k\<close>: \<open>Property "%s" must be at least %d characters\<close>;
  \<^item> \<open>TooLong n k\<close>: \<open>Property "%s" must be at most %d characters\<close>;
  \<^item> \<open>NotInEnum n es\<close>: \<open>Property "%s" must be one of: %v\<close>;
  \<^item> \<open>MustBeNumber n\<close>: \<open>Property "%s" must be a number\<close>;
  \<^item> \<open>MustBeBoolean n\<close>: \<open>Property "%s" must be a boolean\<close>;
  \<^item> \<open>MustBeArray n\<close>: \<open>Property "%s" must be an array\<close>;
  \<^item> \<open>TooFewItems n k\<close>: \<open>Property "%s" must have at least %d items\<close>.
\<close>

datatype violation =
    InvalidJSON string
  | MissingRequired string
  | MustNotBeNull string
  | MustBeString string
  | TooShort string nat
  | TooLong string nat
  | NotInEnum string "string list"
  | MustBeNumber string
  | MustBeBoolean string
  | MustBeArray string
  | TooFewItems string nat

text \<open>
  \<open>checkType\<close> (lines 389-439); \<open>None\<close> is the nil error.  \<open>len(s)\<close> counts bytes, as
  \<open>length\<close> does on a \<open>string\<close>.  \<open>enumCheck\<close> is the enum test of lines 409-420:
  its loop sets \<open>found\<close> exactly when \<open>s\<close> is among the printed members.
\<close>

definition enumCheck :: "string \<Rightarrow> string \<Rightarrow> Schema \<Rightarrow> violation option" where
  "enumCheck name s prop =
     (if length (Enum prop) > 0 \<and> \<not> List.member (Enum prop) s
      then Some (NotInEnum name (Enum prop)) else None)"

definition checkType :: "string \<Rightarrow> any \<Rightarrow> Schema \<Rightarrow> violation option" where
  "checkType name val prop =
     (if val = VNil then
        (if \<not> Nullable prop then Some (MustNotBeNull name) else None)
      else if Type prop = ''string'' then
        (case val of
           VString s \<Rightarrow>
             if MinLength prop > 0 \<and> length s < MinLength prop
               then Some (TooShort name (MinLength prop))
             else (case MaxLength prop of
                     None \<Rightarrow> enumCheck name s prop
                   | Some m \<Rightarrow>
                       if length s > m then Some (TooLong name m)
                       else enumCheck name s prop)
         | _ \<Rightarrow> Some (MustBeString name))
      else if Type prop = ''integer'' \<or> Type prop = ''number'' then
        (case val of VFloat64 f \<Rightarrow> None | _ \<Rightarrow> Some (MustBeNumber name))
      else if Type prop = ''boolean'' then
        (case val of VBool b \<Rightarrow> None | _ \<Rightarrow> Some (MustBeBoolean name))
      else if Type prop = ''array'' then
        (case val of
           VSlice arr \<Rightarrow>
             if MinItems prop > 0 \<and> length arr < MinItems prop
               then Some (TooFewItems name (MinItems prop))
             else None
         | _ \<Rightarrow> Some (MustBeArray name))
      else None)"

text \<open>
  \<open>validateBody\<close> (lines 292-327).  Its first argument is the outcome of
  \<open>json.Unmarshal(raw, &body)\<close> of the standard library: \<open>Inl err\<close> for a decoding
  error, \<open>Inr body\<close> for the decoded object.  \<open>keys\<close> lists the keys of the resolved
  property map in the order in which \<open>range props\<close> visits them, which Go leaves
  unspecified; every value of that map is a non-nil schema, so the nil test of
  line 318 never fires.  Line 322 prefixes each message of \<open>checkType\<close> with
  \<open>request.body\<close>; the constructor alone stands for the prefixed message.
\<close>

definition validateBody ::
  "string + (string \<rightharpoonup> any) \<Rightarrow> Schema option \<Rightarrow> string list \<Rightarrow> violation list" where
  "validateBody decoded schema keys =
     (case decoded of
        Inl err \<Rightarrow> [InvalidJSON err]
      | Inr body \<Rightarrow>
          (case collectSchemaConstraints schema of
             (required, props) \<Rightarrow>
               concat (map (\<lambda>field. case body field of
                                       None \<Rightarrow> [MissingRequired field]
                                     | Some val \<Rightarrow> [])
                           required)
               @ concat (map (\<lambda>name. case props name of
                                        None \<Rightarrow> []
                                      | Some prop \<Rightarrow>
                                          (case body name of
                                             None \<Rightarrow> []
                                           | Some val \<Rightarrow>
                                               (case checkType name val prop of
                                                  None \<Rightarrow> []
                                                | Some err \<Rightarrow> [err])))
                             keys)))"

section \<open>The request and the API description\<close>

text \<open>
  The parts of the request context (\<open>*fiber.Ctx\<close>) the handler reads: header,
  query, cookie and path-parameter lookups, each returning the empty string for
  a missing entry; the map \<open>c.BodyParser(&body)\<close> leaves in \<open>body\<close>, \<open>Some m\<close> for a
  map (the untouched empty map when parsing fails) and \<open>None\<close> for the nil map
  that the JSON text \<open>null\<close> decodes to; the path of the matched route
  (\<open>c.Route().Path\<close>); the raw body \<open>c.Body()\<close>; and the outcome of
  \<open>json.Unmarshal\<close> on that body, which \<open>validateBody\<close> starts with.
\<close>

record Ctx =
  Get :: "string \<Rightarrow> string"
  Query :: "string \<Rightarrow> string"
  Cookies :: "string \<Rightarrow> string"
  Params :: "string \<Rightarrow> string"
  BodyParser :: "(string \<rightharpoonup> any) option"
  RoutePath :: string
  Body :: string
  Unmarshal :: "string + (string \<rightharpoonup> any)"

text \<open>
  The fields of \<open>openapi3.SecurityScheme\<close>, \<open>openapi3.Components\<close> and
  \<open>openapi3.T\<close> that are read.  A nil map or pointer is \<open>None\<close>; the value of a
  \<open>*SecuritySchemeRef\<close> is its \<open>Value\<close> field.  A security requirement is the list
  of the scheme names it maps (its scope lists are never read), in the order
  \<open>range req\<close> visits them.
\<close>

record SecurityScheme =
  sType :: string
  sScheme :: string
  sIn :: string
  sName :: string

record Components =
  SecuritySchemes :: "(string \<rightharpoonup> SecurityScheme option) option"

type_synonym SecurityRequirement = "string list"

text \<open>
  The fields of \<open>openapi3.Parameter\<close>, \<open>openapi3.MediaType\<close>,
  \<open>openapi3.RequestBody\<close>, \<open>openapi3.Operation\<close> and \<open>openapi3.PathItem\<close> that
  are read.  A reference is again its \<open>Value\<close>; an entry of the content map is
  \<open>Some None\<close> when its \<open>*MediaType\<close> is nil.  \<open>Paths\<close> is the lookup
  \<open>openapiDoc.Paths.Find\<close> of the library.
\<close>

record Parameter =
  pName :: string
  pIn :: string
  pRequired :: bool

record MediaType =
  mtSchema :: "Schema option"

record RequestBody =
  rbRequired :: bool
  rbContent :: "(string \<rightharpoonup> MediaType option) option"

record Operation =
  opSecurity :: "SecurityRequirement list option"
  opRequestBody :: "RequestBody option"
  opParameters :: "Parameter option list"

record PathItem =
  itemGet :: "Operation option"
  itemPost :: "Operation option"
  itemPut :: "Operation option"
  itemPatch :: "Operation option"
  itemDelete :: "Operation option"

record T =
  Components :: "Components option"
  Security :: "SecurityRequirement list option"
  Paths :: "string \<Rightarrow> PathItem option"

section \<open>The security evaluator\<close>

text \<open>
  \<open>strings.HasPrefix\<close>, and \<open>strings.EqualFold\<close> on ASCII letters.  EqualFold also
  identifies a few non-ASCII code points with \<open>k\<close> and \<open>s\<close>; it is only called with
  \<open>bearer\<close>, which has neither letter.
\<close>

definition HasPrefix :: "string \<Rightarrow> string \<Rightarrow> bool" where
  "HasPrefix s p = (take (length p) s = p)"

definition lowerASCII :: "char \<Rightarrow> char" where
  "lowerASCII c =
     (case map_of (zip ''ABCDEFGHIJKLMNOPQRSTUVWXYZ'' ''abcdefghijklmnopqrstuvwxyz'') c of
        None \<Rightarrow> c
      | Some l \<Rightarrow> l)"

definition EqualFold :: "string \<Rightarrow> string \<Rightarrow> bool" where
  "EqualFold s t = (map lowerASCII s = map lowerASCII t)"

text \<open>
  The \<open>switch scheme.Type\<close> of lines 239-274: whether \<open>allSatisfied\<close> is still true
  after it.
\<close>

definition schemeSatisfied :: "Ctx \<Rightarrow> SecurityScheme \<Rightarrow> bool" where
  "schemeSatisfied c scheme =
     (if sType scheme = ''http'' then
        (let auth = Get c ''Authorization'' in
           if auth = [] then False
           else if EqualFold (sScheme scheme) ''bearer''
             then (if \<not> HasPrefix auth ''Bearer '' \<and> \<not> HasPrefix auth ''bearer ''
                   then False else True)
           else True)
      else if sType scheme = ''apiKey'' then
        (if sIn scheme = ''header'' then Get c (sName scheme) \<noteq> []
         else if sIn scheme = ''query'' then Query c (sName scheme) \<noteq> []
         else if sIn scheme = ''cookie'' then Cookies c (sName scheme) \<noteq> []
         else False)
      else Get c ''Authorization'' \<noteq> [])"

text \<open>
  The inner loop of lines 231-279 over the scheme names of one requirement: it
  stops with \<open>allSatisfied = false\<close> at the first name that is not declared, whose
  reference has no value, or whose scheme is not satisfied.
\<close>

fun allSatisfied ::
  "Ctx \<Rightarrow> (string \<rightharpoonup> SecurityScheme option) \<Rightarrow> SecurityRequirement \<Rightarrow> bool" where
  "allSatisfied c schemes [] = True"
| "allSatisfied c schemes (schemeName # rest) =
     (case schemes schemeName of
        None \<Rightarrow> False
      | Some None \<Rightarrow> False
      | Some (Some scheme) \<Rightarrow>
          if schemeSatisfied c scheme then allSatisfied c schemes rest else False)"

text \<open>The outer loop of lines 224-285 over the alternatives.\<close>

fun anyRequirement ::
  "Ctx \<Rightarrow> (string \<rightharpoonup> SecurityScheme option) \<Rightarrow> SecurityRequirement list \<Rightarrow> bool" where
  "anyRequirement c schemes [] = False"
| "anyRequirement c schemes (req # rest) =
     (if length req = 0 then True
      else if allSatisfied c schemes req then True
      else anyRequirement c schemes rest)"

text \<open>
  \<open>isAuthenticated\<close> (lines 219-286); the loaded document \<open>openapiDoc\<close>, a global
  of the source, is an argument.
\<close>

definition isAuthenticated :: "Ctx \<Rightarrow> T option \<Rightarrow> SecurityRequirement list \<Rightarrow> bool" where
  "isAuthenticated c openapiDoc reqs =
     (case openapiDoc of
        None \<Rightarrow> False
      | Some doc \<Rightarrow>
          (case Components doc of
             None \<Rightarrow> False
           | Some comps \<Rightarrow>
               (case SecuritySchemes comps of
                  None \<Rightarrow> False
                | Some schemes \<Rightarrow> anyRequirement c schemes reqs)))"

text \<open>
  The guard of line 220, negated: the document is loaded, has a components
  object, and that has a security-scheme table (possibly an empty one).
\<close>

definition declaresSchemes :: "T option \<Rightarrow> bool" where
  "declaresSchemes openapiDoc =
     (case openapiDoc of
        None \<Rightarrow> False
      | Some doc \<Rightarrow>
          (case Components doc of
             None \<Rightarrow> False
           | Some comps \<Rightarrow> SecuritySchemes comps \<noteq> None))"

text \<open>
  What the claim about bearer tokens calls a prefix compared case-insensitively:
  the first \<open>length p\<close> characters of \<open>s\<close> equal \<open>p\<close> up to the case of letters.
\<close>

definition spec_hasPrefixFold :: "string \<Rightarrow> string \<Rightarrow> bool" where
  "spec_hasPrefixFold s p = (length p \<le> length s \<and> EqualFold (take (length p) s) p)"

section \<open>The resource store and the mock response\<close>

text \<open>
  A record is a \<open>map[string]any\<close>, the table \<open>Store.Data\<close> a
  \<open>map[string][]map[string]any\<close>; a missing key and a nil slice, which the code
  does not tell apart (line 137), are both \<open>None\<close>.  \<open>mu\<close> is the state of the
  store's \<open>sync.Mutex\<close>: \<open>True\<close> while it is held.  The files are a map from file
  names to the table whose JSON text \<open>Store.Save\<close> wrote there, together with
  the file names for which \<open>os.WriteFile\<close> succeeds.
\<close>

type_synonym item = "string \<rightharpoonup> any"

type_synonym table = "string \<rightharpoonup> item list"

record files =
  contents :: "string \<rightharpoonup> table"
  writable :: "string \<Rightarrow> bool"

record Store =
  mu :: bool
  Data :: table

text \<open>
  \<open>Store.Save\<close> (\<open>part_000\<close>, lines 23-28).  \<open>s.mu.Lock()\<close> returns only once the
  mutex is free; \<open>sync.Mutex\<close> is not re-entrant, so when it is held, and held by
  the very goroutine that calls \<open>Save\<close>, the call never returns: that is the
  value \<open>None\<close>.  Otherwise the table is marshalled (every value of the model has
  a JSON text) and written; the error of \<open>os.WriteFile\<close> is discarded, so a
  write that fails leaves the file as it was and goes unnoticed.  The deferred
  \<open>Unlock\<close> leaves the mutex free.
\<close>

definition Save :: "string \<Rightarrow> Store \<Rightarrow> files \<Rightarrow> (Store \<times> files) option" where
  "Save file s fs =
     (if mu s then None
      else Some (s, if writable fs file
                    then fs\<lparr>contents := (contents fs)(file \<mapsto> Data s)\<rparr>
                    else fs))"

text \<open>\<open>saveStore\<close> (lines 473-479).\<close>

definition saveStore :: "Store \<Rightarrow> string \<Rightarrow> files \<Rightarrow> (Store \<times> files) option" where
  "saveStore store dataFile fs =
     (if dataFile = [] then Save ''data.json'' store fs else Save dataFile store fs)"

text \<open>
  \<open>strconv.Atoi\<close> of the standard library for a 64-bit \<open>int\<close>, its value only
  (the handler discards the error, line 142).  A string of 1 to 18 bytes takes
  the fast path: an optional sign, then digits only, else \<open>0\<close>.  Any other string
  goes through \<open>ParseInt\<close> and \<open>ParseUint\<close>, which read the bytes from the left: a
  byte that is not a digit ends the scan with a syntax error and the value
  \<open>0\<close>, but a digit that takes the number past the unsigned 64-bit range ends
  it at once with a range error, whatever follows; a range error, and a
  number outside the signed range, give the largest or the smallest \<open>int\<close>.
\<close>

definition isDigit :: "char \<Rightarrow> bool" where
  "isDigit ch = (48 \<le> (of_char ch :: nat) \<and> (of_char ch :: nat) \<le> 57)"

definition digit :: "char \<Rightarrow> nat" where
  "digit ch = of_char ch - 48"

datatype numError = ErrSyntax | ErrRange

fun parseUintLoop :: "string \<Rightarrow> nat \<Rightarrow> nat \<times> numError option" where
  "parseUintLoop [] n = (n, None)"
| "parseUintLoop (c # cs) n =
     (if \<not> isDigit c then (0, Some ErrSyntax)
      else if n \<ge> (2 ^ 64 - 1) div 10 + 1 then (2 ^ 64 - 1, Some ErrRange)
      else if n * 10 + digit c > 2 ^ 64 - 1 then (2 ^ 64 - 1, Some ErrRange)
      else parseUintLoop cs (n * 10 + digit c))"

definition ParseUint :: "string \<Rightarrow> nat \<times> numError option" where
  "ParseUint s = (if s = [] then (0, Some ErrSyntax) else parseUintLoop s 0)"

definition ParseInt :: "string \<Rightarrow> int \<times> numError option" where
  "ParseInt s =
     (if s = [] then (0, Some ErrSyntax)
      else
        (let neg = (hd s = CHR ''-'');
             rest = (if hd s = CHR ''+'' \<or> hd s = CHR ''-'' then tl s else s)
         in case ParseUint rest of
              (un, err) \<Rightarrow>
                if err = Some ErrSyntax then (0, Some ErrSyntax)
                else if \<not> neg \<and> un \<ge> 2 ^ 63 then (2 ^ 63 - 1, Some ErrRange)
                else if neg \<and> un > 2 ^ 63 then (- (2 ^ 63), Some ErrRange)
                else (if neg then - int un else int un, None)))"

fun fastLoop :: "string \<Rightarrow> nat \<Rightarrow> nat option" where
  "fastLoop [] n = Some n"
| "fastLoop (ch # cs) n =
     (if \<not> isDigit ch then None else fastLoop cs (n * 10 + digit ch))"

definition Atoi :: "string \<Rightarrow> int" where
  "Atoi s =
     (if 0 < length s \<and> length s < 19 then
        (let rest = (if hd s = CHR ''-'' \<or> hd s = CHR ''+'' then tl s else s)
         in if length rest < 1 then 0
            else (case fastLoop rest 0 of
                    None \<Rightarrow> 0
                  | Some n \<Rightarrow> if hd s = CHR ''-'' then - int n else int n))
      else fst (ParseInt s))"

text \<open>
  Three notions to speak about path parameters: the string without its sign,
  a decimal integer (an optional sign and one or more digits), and a string
  whose leading digits, after the sign, exceed the unsigned 64-bit range.
\<close>

definition unsigned :: "string \<Rightarrow> string" where
  "unsigned s =
     (case s of
        [] \<Rightarrow> []
      | ch # rest \<Rightarrow> if ch = CHR ''-'' \<or> ch = CHR ''+'' then rest else s)"

definition isDecimal :: "string \<Rightarrow> bool" where
  "isDecimal s = (unsigned s \<noteq> [] \<and> list_all isDigit (unsigned s))"

definition digitsValue :: "string \<Rightarrow> nat" where
  "digitsValue ds = foldl (\<lambda>n ch. n * 10 + digit ch) 0 ds"

definition overflows :: "string \<Rightarrow> bool" where
  "overflows s = (digitsValue (takeWhile isDigit (unsigned s)) \<ge> 2 ^ 64)"

text \<open>
  The conversion \<open>int(f)\<close> of a \<open>float64\<close> as compiled for amd64: the fraction is
  discarded (truncation towards zero), and a value outside the range of \<open>int\<close>,
  for which Go leaves the result to the implementation, gives the smallest
  \<open>int\<close>.
\<close>

definition goInt :: "rat \<Rightarrow> int" where
  "goInt f =
     (let t = (if 0 \<le> f then \<lfloor>f\<rfloor> else \<lceil>f\<rceil>)
      in if - (2 ^ 63) \<le> t \<and> t < 2 ^ 63 then t else - (2 ^ 63))"

text \<open>
  The search shared by the loops of lines 147-152, 170-182 and 187-194:
  \<open>for i, item := range list { if int(item["id"].(float64)) == id ... }\<close>.  The
  type assertion has no \<open>ok\<close> result, so it panics on an item whose \<open>id\<close> is
  missing or is not a \<open>float64\<close>; the search reaches such an item unless an earlier
  one matched.
\<close>

datatype scan = Hit nat item | Miss | AssertPanic

fun findById :: "item list \<Rightarrow> int \<Rightarrow> nat \<Rightarrow> scan" where
  "findById [] ident i = Miss"
| "findById (item # rest) ident i =
     (case item ''id'' of
        Some (VFloat64 f) \<Rightarrow>
          if goInt f = ident then Hit i item else findById rest ident (Suc i)
      | _ \<Rightarrow> AssertPanic)"

text \<open>
  What a call of the handler comes to: a JSON response with its status, a bare
  status, the error response of \<open>validationError\<close> or \<open>bodyValidationError\<close> with
  its status and what it reports (the list of allowed media types in the
  message of line 91 is left out: its order is that of a \<open>range\<close> over a map),
  one of the two Fiber errors, a panic, or no return at all.
\<close>

datatype payload = Item item | Collection "item list"

datatype rejection =
    InvalidSecurityScheme
  | BodyRequired
  | ContentTypeRequired
  | UnsupportedMediaType string
  | Violations "violation list"
  | MissingParameter string string

datatype outcome =
    Respond nat payload
  | SendStatus nat
  | Rejected nat rejection
  | ErrNotFound
  | ErrNotImplemented
  | Panics
  | Blocks

definition records :: "Store \<Rightarrow> string \<Rightarrow> item list" where
  "records store resource = (case Data store resource of None \<Rightarrow> [] | Some l \<Rightarrow> l)"

definition unlock :: "Store \<Rightarrow> Store" where
  "unlock store = store\<lparr>mu := False\<rparr>"

text \<open>
  Step 4 of \<open>handle\<close> (lines 134-199), which a request reaches when steps 1 to 3
  (\<open>validationSteps\<close> below) have not answered it; those steps do not touch the
  store.
  \<open>store.mu.Lock()\<close> of line 134 does not return while the mutex is held
  (\<open>Blocks\<close>).  The deferred \<open>Unlock\<close> of line 135 runs when the function returns
  and when it panics, not when it is stuck in \<open>saveStore\<close>.  In the update case a
  nil \<open>body\<close> is ranged over like an empty map; in the create case the
  assignment \<open>body["id"] = ...\<close> to a nil map panics.
\<close>

definition mockResponse ::
  "Ctx \<Rightarrow> string \<Rightarrow> string \<Rightarrow> Store \<Rightarrow> string \<Rightarrow> files \<Rightarrow> outcome \<times> Store \<times> files" where
  "mockResponse c method resource store dataFile fs =
     (if mu store then (Blocks, store, fs)
      else
        (let held = store\<lparr>mu := True\<rparr>;
             st = (if Data held resource = None
                   then held\<lparr>Data := (Data held)(resource \<mapsto> [])\<rparr> else held);
             list = records st resource;
             ident = Atoi (Params c ''id'')
         in
           if method = ''GET'' then
             (if ident > 0 then
                (case findById list ident 0 of
                   Hit i item \<Rightarrow> (Respond 200 (Item item), unlock st, fs)
                 | Miss \<Rightarrow> (ErrNotFound, unlock st, fs)
                 | AssertPanic \<Rightarrow> (Panics, unlock st, fs))
              else (Respond 200 (Collection list), unlock st, fs))
           else if method = ''POST'' then
             (case BodyParser c of
                None \<Rightarrow> (Panics, unlock st, fs)
              | Some parsed \<Rightarrow>
                  (let body = parsed(''id'' \<mapsto> VInt (int (length list) + 1));
                       st' = st\<lparr>Data := (Data st)(resource \<mapsto> list @ [body])\<rparr>
                   in case saveStore st' dataFile fs of
                        None \<Rightarrow> (Blocks, st', fs)
                      | Some (st'', fs') \<Rightarrow> (Respond 201 (Item body), unlock st'', fs')))
           else if method = ''PUT'' \<or> method = ''PATCH'' then
             (case findById list ident 0 of
                Hit i item \<Rightarrow>
                  (let body = (case BodyParser c of None \<Rightarrow> Map.empty | Some parsed \<Rightarrow> parsed);
                       item' = item ++ body;
                       st' = st\<lparr>Data := (Data st)(resource \<mapsto> list[i := item'])\<rparr>
                   in case saveStore st' dataFile fs of
                        None \<Rightarrow> (Blocks, st', fs)
                      | Some (st'', fs') \<Rightarrow> (Respond 200 (Item item'), unlock st'', fs'))
              | Miss \<Rightarrow> (ErrNotFound, unlock st, fs)
              | AssertPanic \<Rightarrow> (Panics, unlock st, fs))
           else if method = ''DELETE'' then
             (case findById list ident 0 of
                Hit i item \<Rightarrow>
                  (let st' = st\<lparr>Data := (Data st)(resource \<mapsto> take i list @ drop (Suc i) list)\<rparr>
                   in case saveStore st' dataFile fs of
                        None \<Rightarrow> (Blocks, st', fs)
                      | Some (st'', fs') \<Rightarrow> (SendStatus 204, unlock st'', fs'))
              | Miss \<Rightarrow> (ErrNotFound, unlock st, fs)
              | AssertPanic \<Rightarrow> (Panics, unlock st, fs))
           else (ErrNotImplemented, unlock st, fs)))"

section \<open>The validation steps and the handler\<close>

text \<open>
  \<open>needsRequestBody\<close> (lines 442-448), \<open>operationForPathMethod\<close> (lines 451-470)
  and \<open>resolveSecurityRequirements\<close> (lines 207-215), with the loaded document
  as an argument.
\<close>

definition needsRequestBody :: "string \<Rightarrow> bool" where
  "needsRequestBody method = (method = ''POST'' \<or> method = ''PUT'' \<or> method = ''PATCH'')"

definition operationForPathMethod :: "T option \<Rightarrow> string \<Rightarrow> string \<Rightarrow> Operation option" where
  "operationForPathMethod openapiDoc path method =
     (case openapiDoc of
        None \<Rightarrow> None
      | Some doc \<Rightarrow>
          (case Paths doc path of
             None \<Rightarrow> None
           | Some item \<Rightarrow>
               if method = ''GET'' then itemGet item
               else if method = ''POST'' then itemPost item
               else if method = ''PUT'' then itemPut item
               else if method = ''PATCH'' then itemPatch item
               else if method = ''DELETE'' then itemDelete item
               else None))"

definition resolveSecurityRequirements ::
  "T option \<Rightarrow> Operation option \<Rightarrow> SecurityRequirement list" where
  "resolveSecurityRequirements openapiDoc op =
     (case (case op of None \<Rightarrow> None | Some operation \<Rightarrow> opSecurity operation) of
        Some reqs \<Rightarrow> reqs
      | None \<Rightarrow>
          (case openapiDoc of
             None \<Rightarrow> []
           | Some doc \<Rightarrow> (case Security doc of None \<Rightarrow> [] | Some reqs \<Rightarrow> reqs)))"

text \<open>
  \<open>strings.TrimSpace\<close> of the standard library on the bytes of a string: the
  white-space code points of Unicode, in their UTF-8 encodings, are removed
  from the front and then from the back.
\<close>

definition spaceRunes :: "string list" where
  "spaceRunes =
     [[CHR 0x09], [CHR 0x0A], [CHR 0x0B], [CHR 0x0C], [CHR 0x0D], [CHR 0x20],
      [CHR 0xC2, CHR 0x85], [CHR 0xC2, CHR 0xA0], [CHR 0xE1, CHR 0x9A, CHR 0x80],
      [CHR 0xE2, CHR 0x80, CHR 0x80], [CHR 0xE2, CHR 0x80, CHR 0x81],
      [CHR 0xE2, CHR 0x80, CHR 0x82], [CHR 0xE2, CHR 0x80, CHR 0x83],
      [CHR 0xE2, CHR 0x80, CHR 0x84], [CHR 0xE2, CHR 0x80, CHR 0x85],
      [CHR 0xE2, CHR 0x80, CHR 0x86], [CHR 0xE2, CHR 0x80, CHR 0x87],
      [CHR 0xE2, CHR 0x80, CHR 0x88], [CHR 0xE2, CHR 0x80, CHR 0x89],
      [CHR 0xE2, CHR 0x80, CHR 0x8A], [CHR 0xE2, CHR 0x80, CHR 0xA8],
      [CHR 0xE2, CHR 0x80, CHR 0xA9], [CHR 0xE2, CHR 0x80, CHR 0xAF],
      [CHR 0xE2, CHR 0x81, CHR 0x9F], [CHR 0xE3, CHR 0x80, CHR 0x80]]"

function stripRunes :: "string list \<Rightarrow> string \<Rightarrow> string" where
  "stripRunes runes s =
     (case find (\<lambda>r. r \<noteq> [] \<and> take (length r) s = r) runes of
        None \<Rightarrow> s
      | Some r \<Rightarrow> stripRunes runes (drop (length r) s))"
  by pat_completeness auto
termination
proof (relation "measure (\<lambda>(runes, s). length s)")
  show "wf (measure (\<lambda>(runes, s). length s))" by simp
next
  fix runes :: "string list" and s r :: string
  assume "find (\<lambda>r. r \<noteq> [] \<and> take (length r) s = r) runes = Some r"
  then have "r \<noteq> []" and "take (length r) s = r"
    by (auto simp: find_Some_iff)
  then have "s \<noteq> []" by auto
  with \<open>r \<noteq> []\<close> show "((runes, drop (length r) s), (runes, s)) \<in> measure (\<lambda>(runes, s). length s)"
    by simp
qed

definition TrimSpace :: "string \<Rightarrow> string" where
  "TrimSpace s = rev (stripRunes (map rev spaceRunes) (rev (stripRunes spaceRunes s)))"

text \<open>
  Step 2 for an operation that has a request body (lines 69-101).  The base
  content type is what precedes the first \<open>;\<close>, trimmed.  Reading the schema of
  a nil \<open>*MediaType\<close> panics.  \<open>keys\<close> is passed on to \<open>validateBody\<close>.
\<close>

definition negotiate :: "Ctx \<Rightarrow> string list \<Rightarrow> RequestBody \<Rightarrow> outcome option" where
  "negotiate c keys rb =
     (if rbRequired rb \<and> length (Body c) = 0 then Some (Rejected 400 BodyRequired)
      else if length (Body c) > 0 then
        (case rbContent rb of
           None \<Rightarrow> None
         | Some content \<Rightarrow>
             (let ct = Get c ''Content-Type'' in
                if ct = [] then Some (Rejected 415 ContentTypeRequired)
                else
                  (let baseCT = TrimSpace (takeWhile (\<lambda>ch. ch \<noteq> CHR '';'') ct) in
                     case content baseCT of
                       None \<Rightarrow> Some (Rejected 415 (UnsupportedMediaType baseCT))
                     | Some None \<Rightarrow> Some Panics
                     | Some (Some mediaType) \<Rightarrow>
                         (case mtSchema mediaType of
                            None \<Rightarrow> None
                          | Some schema \<Rightarrow>
                              (let violations = validateBody (Unmarshal c) (Some schema) keys in
                                 if length violations > 0
                                 then Some (Rejected 400 (Violations violations))
                                 else None)))))
      else None)"

text \<open>
  Step 3, the loop of lines 107-128 over the parameters of the operation: the
  first required parameter whose value is empty ends it.  A location other
  than query, path and header leaves \<open>val\<close> empty.
\<close>

fun requiredParameters :: "Ctx \<Rightarrow> Parameter option list \<Rightarrow> outcome option" where
  "requiredParameters c [] = None"
| "requiredParameters c (paramRef # rest) =
     (case paramRef of
        None \<Rightarrow> requiredParameters c rest
      | Some p \<Rightarrow>
          if \<not> pRequired p then requiredParameters c rest
          else
            (let val = (if pIn p = ''query'' then Query c (pName p)
                        else if pIn p = ''path'' then Params c (pName p)
                        else if pIn p = ''header'' then Get c (pName p)
                        else [])
             in if val = [] then Some (Rejected 400 (MissingParameter (pIn p) (pName p)))
                else requiredParameters c rest))"

text \<open>
  Steps 1 to 3 of \<open>handle\<close> (lines 53-129): \<open>Some\<close> of the answer when one of them
  ends the call, \<open>None\<close> when the request passes all validation rules.
\<close>

definition validationSteps :: "Ctx \<Rightarrow> string \<Rightarrow> T option \<Rightarrow> string list \<Rightarrow> outcome option" where
  "validationSteps c method openapiDoc keys =
     (let operation = operationForPathMethod openapiDoc (RoutePath c) method;
          secReqs = resolveSecurityRequirements openapiDoc operation
      in if length secReqs > 0 \<and> \<not> isAuthenticated c openapiDoc secReqs
           then Some (Rejected 401 InvalidSecurityScheme)
         else
           (case (case operation of
                    None \<Rightarrow> None
                  | Some op \<Rightarrow>
                      if needsRequestBody method then
                        (case opRequestBody op of
                           None \<Rightarrow> None
                         | Some rb \<Rightarrow> negotiate c keys rb)
                      else None) of
              Some out \<Rightarrow> Some out
            | None \<Rightarrow>
                (case operation of
                   None \<Rightarrow> None
                 | Some op \<Rightarrow> requiredParameters c (opParameters op))))"

text \<open>
  \<open>handle\<close> (lines 42-200).  Besides the arguments of the source it takes the
  files, the loaded document and the \<open>range\<close> order of \<open>validateBody\<close>.
\<close>

definition handle ::
  "Ctx \<Rightarrow> string \<Rightarrow> string \<Rightarrow> Store \<Rightarrow> string \<Rightarrow> files \<Rightarrow> T option \<Rightarrow> string list
     \<Rightarrow> outcome \<times> Store \<times> files" where
  "handle c method resource store dataFile fs openapiDoc keys =
     (case validationSteps c method openapiDoc keys of
        Some out \<Rightarrow> (out, store, fs)
      | None \<Rightarrow> mockResponse c method resource store dataFile fs)"

text \<open>
  A sequence of requests against one store, each handled on the state the
  previous one left behind.
\<close>

record Request =
  reqCtx :: Ctx
  reqMethod :: string
  reqResource :: string
  reqKeys :: "string list"

fun serve :: "string \<Rightarrow> T option \<Rightarrow> Request list \<Rightarrow> Store \<times> files \<Rightarrow> Store \<times> files" where
  "serve dataFile openapiDoc [] w = w"
| "serve dataFile openapiDoc (r # rs) (store, fs) =
     (case handle (reqCtx r) (reqMethod r) (reqResource r) store dataFile fs openapiDoc (reqKeys r) of
        (out, store', fs') \<Rightarrow> serve dataFile openapiDoc rs (store', fs'))"

text \<open>
  The states a record list that started empty can be in: still empty, or one
  record long with the mutex held for good.
\<close>

definition settled :: "Store \<Rightarrow> string \<Rightarrow> bool" where
  "settled store resource =
     (records store resource = [] \<or> (mu store \<and> length (records store resource) = 1))"

section \<open>Example data\<close>

text \<open>
  Shorthands for the schema nodes of the examples: a node with only a type and
  a minimal length, a node with a required list and all-of branches, and a node
  declaring one property.
\<close>

abbreviation typed :: "string \<Rightarrow> nat \<Rightarrow> Schema" where
  "typed ty mn \<equiv> Schema [] (\<lambda>name. None) ty False mn None [] 0 [] [] []"

abbreviation requiring :: "string list \<Rightarrow> Schema option list \<Rightarrow> Schema" where
  "requiring req allOf \<equiv> Schema req (\<lambda>name. None) ''object'' False 0 None [] 0 allOf [] []"

abbreviation declaring :: "string \<Rightarrow> Schema \<Rightarrow> Schema option list \<Rightarrow> Schema" where
  "declaring name prop allOf \<equiv>
     Schema [] ((\<lambda>name. None)(name := Some (Some prop))) ''object'' False 0 None [] 0 allOf [] []"

text \<open>
  Requests: one that carries nothing, one with an \<open>Authorization\<close> header, one whose
  body parses to the given fields, one with the path parameter \<open>id\<close>.  A
  document with the given security-scheme table, and an http scheme of sub-kind
  bearer.  The record a create of \<open>{"color":"red"}\<close> stores in an empty list.
\<close>

abbreviation noCredentials :: Ctx where
  "noCredentials \<equiv>
     \<lparr>Get = (\<lambda>key. []), Query = (\<lambda>key. []), Cookies = (\<lambda>key. []), Params = (\<lambda>key. []),
      BodyParser = Some Map.empty, RoutePath = ''/widgets/{id}'', Body = [],
      Unmarshal = Inr Map.empty\<rparr>"

abbreviation withAuthorization :: "string \<Rightarrow> Ctx" where
  "withAuthorization v \<equiv> noCredentials\<lparr>Get := (\<lambda>key. [])(''Authorization'' := v)\<rparr>"

abbreviation withBody :: "(string \<rightharpoonup> any) \<Rightarrow> Ctx" where
  "withBody parsed \<equiv> noCredentials\<lparr>BodyParser := Some parsed\<rparr>"

abbreviation withId :: "string \<Rightarrow> Ctx" where
  "withId v \<equiv> noCredentials\<lparr>Params := (\<lambda>key. [])(''id'' := v)\<rparr>"

abbreviation bearerScheme :: SecurityScheme where
  "bearerScheme \<equiv> \<lparr>sType = ''http'', sScheme = ''bearer'', sIn = [], sName = []\<rparr>"

abbreviation docWith :: "(string \<rightharpoonup> SecurityScheme option) option \<Rightarrow> T option" where
  "docWith schemes \<equiv>
     Some \<lparr>Components = Some \<lparr>SecuritySchemes = schemes\<rparr>, Security = None,
           Paths = (\<lambda>path. None)\<rparr>"

text \<open>
  A document in which every path has the given operation under every method,
  with the given components and document-wide security; an operation with the
  given parameters and nothing else; the required path parameter \<open>id\<close>; a file
  system without files in which every write succeeds.
\<close>

abbreviation serving ::
  "Components option \<Rightarrow> SecurityRequirement list option \<Rightarrow> Operation \<Rightarrow> T option" where
  "serving comps security op \<equiv>
     Some \<lparr>Components = comps, Security = security,
           Paths = (\<lambda>path. Some \<lparr>itemGet = Some op, itemPost = Some op, itemPut = Some op,
                                    itemPatch = Some op, itemDelete = Some op\<rparr>)\<rparr>"

abbreviation taking :: "Parameter option list \<Rightarrow> Operation" where
  "taking ps \<equiv> \<lparr>opSecurity = None, opRequestBody = None, opParameters = ps\<rparr>"

abbreviation idParameter :: Parameter where
  "idParameter \<equiv> \<lparr>pName = ''id'', pIn = ''path'', pRequired = True\<rparr>"

abbreviation noFiles :: files where
  "noFiles \<equiv> \<lparr>contents = Map.empty, writable = (\<lambda>file. True)\<rparr>"

abbreviation redWidget :: item where
  "redWidget \<equiv> [''color'' \<mapsto> VString ''red'', ''id'' \<mapsto> VInt 1]"

section \<open>Facts about the constraint resolver\<close>

lemma collect_loops:
  "collectSchemaConstraints (Some (Schema req ps ty nl mn mx en mi allOf oneOf anyOf)) =
     branchLoop anyOf (branchLoop oneOf (allOfLoop allOf (req, ownProps ps)))"
  by (simp add: allOfLoop_def branchLoop_def)

lemma allOfLoop_Nil: "allOfLoop [] acc = acc"
  by (simp add: allOfLoop_def)

lemma allOfLoop_Cons:
  "allOfLoop (sub # subs) (r, p) =
     allOfLoop subs
       (r @ fst (collectSchemaConstraints sub), p ++ snd (collectSchemaConstraints sub))"
  by (cases sub) (simp_all add: allOfLoop_def split: prod.splits)

lemma branchLoop_Nil: "branchLoop [] acc = acc"
  by (simp add: branchLoop_def)

lemma branchLoop_Cons:
  "branchLoop (sub # subs) (r, p) =
     branchLoop subs (r, snd (collectSchemaConstraints sub) ++ p)"
  by (cases sub) (simp_all add: branchLoop_def split: prod.splits)

lemma branchLoop_append:
  "branchLoop (xs @ ys) acc = branchLoop ys (branchLoop xs acc)"
  by (simp add: branchLoop_def)

lemma firstDefined_append:
  "firstDefined (xs @ ys) =
     (case firstDefined xs of Some v \<Rightarrow> Some v | None \<Rightarrow> firstDefined ys)"
  by (induction xs rule: firstDefined.induct) simp_all

lemma fst_allOfLoop:
  "fst (allOfLoop subs (r, p)) =
     r @ concat (map (\<lambda>b. fst (collectSchemaConstraints b)) subs)"
  by (induction subs arbitrary: r p) (simp_all add: allOfLoop_Nil allOfLoop_Cons)

lemma fst_branchLoop: "fst (branchLoop subs acc) = fst acc"
proof (induction subs arbitrary: acc)
  case Nil
  show ?case by (simp add: branchLoop_Nil)
next
  case (Cons b subs)
  show ?case by (cases acc) (simp add: branchLoop_Cons Cons.IH)
qed

lemma snd_branchLoop:
  "snd (branchLoop subs (r, p)) k =
     (case p k of
        Some v \<Rightarrow> Some v
      | None \<Rightarrow> firstDefined (map (\<lambda>b. snd (collectSchemaConstraints b) k) subs))"
proof (induction subs arbitrary: r p)
  case Nil
  show ?case by (simp add: branchLoop_Nil split: option.splits)
next
  case (Cons b subs)
  show ?case
    by (cases "p k"; cases "snd (collectSchemaConstraints b) k")
       (simp_all add: branchLoop_Cons Cons.IH map_add_def)
qed

lemma snd_allOfLoop:
  "snd (allOfLoop subs (r, p)) k =
     (case firstDefined (map (\<lambda>b. snd (collectSchemaConstraints b) k) (rev subs)) of
        Some v \<Rightarrow> Some v
      | None \<Rightarrow> p k)"
proof (induction subs arbitrary: r p)
  case Nil
  show ?case by (simp add: allOfLoop_Nil)
next
  case (Cons b subs)
  show ?case
    by (cases "snd (collectSchemaConstraints b) k")
       (simp_all add: allOfLoop_Cons Cons.IH map_add_def firstDefined_append
          split: option.splits)
qed

lemma required_resolved:
  "fst (collectSchemaConstraints (Some s)) =
     Required s @ concat (map (\<lambda>b. fst (collectSchemaConstraints b)) (AllOf s))"
  by (cases s) (simp only: collect_loops fst_branchLoop fst_allOfLoop Schema.sel)

lemma props_resolved:
  "snd (collectSchemaConstraints (Some s)) k =
     (case firstDefined (map (\<lambda>b. snd (collectSchemaConstraints b) k) (rev (AllOf s))) of
        Some v \<Rightarrow> Some v
      | None \<Rightarrow>
          (case ownProps (Properties s) k of
             Some v \<Rightarrow> Some v
           | None \<Rightarrow>
               firstDefined (map (\<lambda>b. snd (collectSchemaConstraints b) k) (OneOf s @ AnyOf s))))"
proof (cases s)
  case (Schema req ps ty nl mn mx en mi allOf oneOf anyOf)
  obtain r p where acc: "allOfLoop allOf (req, ownProps ps) = (r, p)"
    by (cases "allOfLoop allOf (req, ownProps ps)")
  have p: "p k = (case firstDefined (map (\<lambda>b. snd (collectSchemaConstraints b) k) (rev allOf)) of
        Some v \<Rightarrow> Some v | None \<Rightarrow> ownProps ps k)"
    using snd_allOfLoop [of allOf req "ownProps ps" k] by (simp add: acc)
  have "snd (collectSchemaConstraints (Some s)) k
          = snd (branchLoop (oneOf @ anyOf) (r, p)) k"
    by (simp only: Schema collect_loops branchLoop_append acc)
  also have "\<dots> = (case p k of Some v \<Rightarrow> Some v
      | None \<Rightarrow> firstDefined (map (\<lambda>b. snd (collectSchemaConstraints b) k) (oneOf @ anyOf)))"
    by (rule snd_branchLoop)
  finally show ?thesis
    by (simp add: p Schema split: option.splits)
qed

declare collectSchemaConstraints.simps(2) [simp del]

lemmas resolve_simps =
  collect_loops allOfLoop_Nil allOfLoop_Cons branchLoop_Nil branchLoop_Cons ownProps_def

lemma count_list_concat:
  "count_list (concat xss) x = sum_list (map (\<lambda>xs. count_list xs x) xss)"
  by (induction xss) simp_all

text \<open>
  Claim C4.  For every schema node the resolved required list is the node's own
  required list followed by the resolved required lists of its all-of branches,
  and it is the same list as for the node without its one-of and any-of
  branches: no branch of those two lists contributes a required field.  The
  resolved property for a name is the one the accumulator holds before the
  one-of loop (the node resolved without one-of and any-of branches) whenever
  that defines the name; otherwise it is the property of the first branch, in
  the order one-of then any-of, that defines the name.  So a branch's property
  is merged only when no property of that name is present yet.
\<close>

theorem branches_required_and_first_writer:
  "fst (collectSchemaConstraints (Some (Schema req ps ty nl mn mx en mi allOf oneOf anyOf))) =
     req @ concat (map (\<lambda>b. fst (collectSchemaConstraints b)) allOf)
   \<and> fst (collectSchemaConstraints (Some (Schema req ps ty nl mn mx en mi allOf oneOf anyOf))) =
     fst (collectSchemaConstraints (Some (Schema req ps ty nl mn mx en mi allOf [] [])))
   \<and> snd (collectSchemaConstraints (Some (Schema req ps ty nl mn mx en mi allOf oneOf anyOf))) name =
     (case snd (collectSchemaConstraints (Some (Schema req ps ty nl mn mx en mi allOf [] []))) name of
        Some v \<Rightarrow> Some v
      | None \<Rightarrow>
          firstDefined (map (\<lambda>b. snd (collectSchemaConstraints b) name) (oneOf @ anyOf)))"
proof -
  let ?full = "Schema req ps ty nl mn mx en mi allOf oneOf anyOf"
  let ?base = "Schema req ps ty nl mn mx en mi allOf [] []"
  have req_full: "fst (collectSchemaConstraints (Some ?full)) =
      req @ concat (map (\<lambda>b. fst (collectSchemaConstraints b)) allOf)"
    using required_resolved [of ?full] by (simp only: Schema.sel)
  have req_base: "fst (collectSchemaConstraints (Some ?base)) =
      req @ concat (map (\<lambda>b. fst (collectSchemaConstraints b)) allOf)"
    using required_resolved [of ?base] by (simp only: Schema.sel)
  have props_base: "snd (collectSchemaConstraints (Some ?base)) name =
      (case firstDefined (map (\<lambda>b. snd (collectSchemaConstraints b) name) (rev allOf)) of
         Some v \<Rightarrow> Some v | None \<Rightarrow> ownProps ps name)"
    using props_resolved [of ?base name] by (simp split: option.splits)
  have props_full: "snd (collectSchemaConstraints (Some ?full)) name =
      (case firstDefined (map (\<lambda>b. snd (collectSchemaConstraints b) name) (rev allOf)) of
         Some v \<Rightarrow> Some v
       | None \<Rightarrow>
          (case ownProps ps name of
             Some v \<Rightarrow> Some v
           | None \<Rightarrow>
               firstDefined (map (\<lambda>b. snd (collectSchemaConstraints b) name) (oneOf @ anyOf))))"
    using props_resolved [of ?full name] by (simp only: Schema.sel)
  show ?thesis
    unfolding req_full req_base props_base props_full
    by (simp split: option.splits)
qed

text \<open>
  An instance: the one-of branch requires \<open>email\<close>, which stays out of the required
  list; both any-of branches declare \<open>tag\<close>, and the first one is kept.
\<close>

theorem branches_required_and_first_writer_witness:
  "fst (collectSchemaConstraints (Some (Schema [''id''] (\<lambda>name. None) ''object'' False 0 None [] 0 []
          [Some (requiring [''email''] [])]
          [Some (declaring ''tag'' (typed ''string'' 2) []), Some (declaring ''tag'' (typed ''integer'' 0) [])])))
     = [''id'']
   \<and> snd (collectSchemaConstraints (Some (Schema [''id''] (\<lambda>name. None) ''object'' False 0 None [] 0 []
          [Some (requiring [''email''] [])]
          [Some (declaring ''tag'' (typed ''string'' 2) []), Some (declaring ''tag'' (typed ''integer'' 0) [])])))
        ''tag''
     = Some (typed ''string'' 2)"
  using branches_required_and_first_writer [of "[''id'']" "\<lambda>name. None" "''object''" False 0 None "[]" 0 "[]"
          "[Some (requiring [''email''] [])]"
          "[Some (declaring ''tag'' (typed ''string'' 2) []), Some (declaring ''tag'' (typed ''integer'' 0) [])]"
          "''tag''"]
  by (simp add: resolve_simps)

text \<open>
  Claim C5, as stated, fails: a node that requires \<open>name\<close> and has an all-of branch
  that requires \<open>name\<close> too resolves to a required list with \<open>name\<close> twice.
\<close>

theorem required_not_deduplicated:
  "fst (collectSchemaConstraints (Some (requiring [''name''] [Some (requiring [''name''] [])])))
     = [''name'', ''name'']
   \<and> \<not> distinct (fst (collectSchemaConstraints
                       (Some (requiring [''name''] [Some (requiring [''name''] [])]))))"
  by (simp add: resolve_simps)

text \<open>
  Claim C5, amended.  The resolved required list is not deduplicated: a name
  occurs in it as often as it occurs in the node's own required list and in the
  resolved required lists of the all-of branches together.  As a set it is the
  union of those lists.
\<close>

theorem required_occurrences:
  "count_list (fst (collectSchemaConstraints (Some s))) name =
     count_list (Required s) name
     + sum_list (map (\<lambda>b. count_list (fst (collectSchemaConstraints b)) name) (AllOf s))
   \<and> set (fst (collectSchemaConstraints (Some s))) =
     set (Required s) \<union> \<Union> (set (map (\<lambda>b. set (fst (collectSchemaConstraints b))) (AllOf s)))"
  by (simp add: required_resolved count_list_concat comp_def)

text \<open>An instance with \<open>name\<close> required twice and \<open>age\<close> once.\<close>

theorem required_occurrences_witness:
  "count_list (fst (collectSchemaConstraints
       (Some (requiring [''name'', ''age''] [Some (requiring [''name''] [])])))) ''name'' = 2
   \<and> count_list (fst (collectSchemaConstraints
       (Some (requiring [''name'', ''age''] [Some (requiring [''name''] [])])))) ''age'' = 1"
  using required_occurrences [of "requiring [''name'', ''age''] [Some (requiring [''name''] [])]" "''name''"]
        required_occurrences [of "requiring [''name'', ''age''] [Some (requiring [''name''] [])]" "''age''"]
  by (simp add: resolve_simps)





section \<open>Body validation on the example of the specification\<close>

text \<open>
  Claim C9.  The body schema requires exactly \<open>name\<close> and declares \<open>name\<close> as a
  string of minimal length 3 (no maximal length, no enum); its other fields are
  arbitrary.  The decoded body \<open>{}\<close> gives exactly one violation, the missing
  required property \<open>name\<close>; the body \<open>{"name":"ab"}\<close> gives exactly one
  violation, the length constraint; the body \<open>{"name":"abc"}\<close> gives none.
\<close>

theorem validateBody_name_minLength:
  "validateBody (Inr Map.empty)
     (Some (Schema [''name'']
        ((\<lambda>key. None)(''name'' := Some (Some (Schema r ps ''string'' nl 3 None [] mi a b d))))
        ty nl' mn mx en mi' [] [] []))
     [''name'']
   = [MissingRequired ''name'']
   \<and> validateBody (Inr [''name'' \<mapsto> VString ''ab''])
     (Some (Schema [''name'']
        ((\<lambda>key. None)(''name'' := Some (Some (Schema r ps ''string'' nl 3 None [] mi a b d))))
        ty nl' mn mx en mi' [] [] []))
     [''name'']
   = [TooShort ''name'' 3]
   \<and> validateBody (Inr [''name'' \<mapsto> VString ''abc''])
     (Some (Schema [''name'']
        ((\<lambda>key. None)(''name'' := Some (Some (Schema r ps ''string'' nl 3 None [] mi a b d))))
        ty nl' mn mx en mi' [] [] []))
     [''name'']
   = []"
  by (simp add: validateBody_def checkType_def enumCheck_def resolve_simps)

section \<open>The security evaluator\<close>

lemma anyRequirement_empty:
  "[] \<in> set reqs \<Longrightarrow> anyRequirement c schemes reqs"
  by (induction reqs) auto

text \<open>
  On a list of alternatives that contains an empty requirement the evaluator
  answers exactly whether the loaded document has a security-scheme table,
  whatever the request carries and whatever the table holds.
\<close>

lemma empty_requirement_iff_table:
  assumes "[] \<in> set reqs"
  shows "isAuthenticated c openapiDoc reqs = declaresSchemes openapiDoc"
  using assms
  by (auto simp: isAuthenticated_def declaresSchemes_def anyRequirement_empty split: option.splits)

lemmas validation_simps =
  validationSteps_def operationForPathMethod_def resolveSecurityRequirements_def
  needsRequestBody_def handle_def

text \<open>
  Claim C7 does not hold of the code.  The document declares the single empty
  requirement as its security and has no components object.  The evaluator
  answers unsatisfied, because the guard of lines 220-222 returns before the
  loop that holds the rule for the empty requirement (line 225), and the
  handler answers the request with status 401.  With a components object that
  has an empty security-scheme table the same list is satisfied.
\<close>

theorem empty_requirement_without_schemes:
  "[[]] \<noteq> [] \<and> [] \<in> set [[]::string list]
   \<and> \<not> isAuthenticated noCredentials (serving None (Some [[]]) (taking [])) [[]]
   \<and> fst (handle noCredentials ''GET'' ''widgets'' \<lparr>mu = False, Data = Map.empty\<rparr> ''data.json''
            noFiles (serving None (Some [[]]) (taking [])) [])
     = Rejected 401 InvalidSecurityScheme
   \<and> isAuthenticated noCredentials
        (serving (Some \<lparr>SecuritySchemes = Some Map.empty\<rparr>) (Some [[]]) (taking [])) [[]]"
  by (simp add: isAuthenticated_def validation_simps)

text \<open>
  Claim C8, as stated, fails: the value \<open>BEARER abc\<close> is present and starts with
  \<open>Bearer \<close> up to the case of letters, and the request is rejected.
\<close>

theorem bearer_prefix_other_case:
  "Get (withAuthorization ''BEARER abc'') ''Authorization'' \<noteq> []
   \<and> spec_hasPrefixFold (Get (withAuthorization ''BEARER abc'') ''Authorization'') ''Bearer ''
   \<and> \<not> isAuthenticated (withAuthorization ''BEARER abc'')
         (docWith (Some [''token'' \<mapsto> Some bearerScheme])) [[''token'']]"
  by (simp add: spec_hasPrefixFold_def EqualFold_def lowerASCII_def isAuthenticated_def
        schemeSatisfied_def HasPrefix_def)

text \<open>
  Claim C8, amended.  For an http security scheme whose sub-kind is bearer (in
  any casing), a request satisfies a requirement naming just that scheme if and
  only if its \<open>Authorization\<close> header is present and its value starts with
  exactly \<open>Bearer \<close> or exactly \<open>bearer \<close>.
\<close>

theorem bearer_two_prefixes:
  assumes "openapiDoc = Some doc" and "Components doc = Some comps"
    and "SecuritySchemes comps = Some schemes"
    and "schemes name = Some (Some scheme)"
    and "sType scheme = ''http''" and "EqualFold (sScheme scheme) ''bearer''"
  shows "isAuthenticated c openapiDoc [[name]] =
     (Get c ''Authorization'' \<noteq> []
      \<and> (HasPrefix (Get c ''Authorization'') ''Bearer ''
         \<or> HasPrefix (Get c ''Authorization'') ''bearer ''))"
  using assms by (auto simp: isAuthenticated_def schemeSatisfied_def Let_def)

text \<open>
  Instances: both accepted spellings, another authorization scheme, and no
  header at all.
\<close>

theorem bearer_two_prefixes_witness:
  "isAuthenticated (withAuthorization ''Bearer abc'')
         (docWith (Some [''token'' \<mapsto> Some bearerScheme])) [[''token'']]
   \<and> isAuthenticated (withAuthorization ''bearer abc'')
         (docWith (Some [''token'' \<mapsto> Some bearerScheme])) [[''token'']]
   \<and> \<not> isAuthenticated (withAuthorization ''Basic abc'')
         (docWith (Some [''token'' \<mapsto> Some bearerScheme])) [[''token'']]
   \<and> \<not> isAuthenticated noCredentials
         (docWith (Some [''token'' \<mapsto> Some bearerScheme])) [[''token'']]"
proof -
  have doc: "docWith (Some [''token'' \<mapsto> Some bearerScheme]) =
      Some \<lparr>Components = Some \<lparr>SecuritySchemes = Some [''token'' \<mapsto> Some bearerScheme]\<rparr>, Security = None,
            Paths = (\<lambda>path. None)\<rparr>"
    by simp
  have comps: "Components \<lparr>Components = Some \<lparr>SecuritySchemes = Some [''token'' \<mapsto> Some bearerScheme]\<rparr>, Security = None,
            Paths = (\<lambda>path. None)\<rparr>
      = Some \<lparr>SecuritySchemes = Some [''token'' \<mapsto> Some bearerScheme]\<rparr>"
    by simp
  have table: "SecuritySchemes \<lparr>SecuritySchemes = Some [''token'' \<mapsto> Some bearerScheme]\<rparr>
      = Some [''token'' \<mapsto> Some bearerScheme]"
    by simp
  have entry: "[''token'' \<mapsto> Some bearerScheme] ''token'' = Some (Some bearerScheme)"
    by simp
  have kind: "sType bearerScheme = ''http''"
    by simp
  have sub: "EqualFold (sScheme bearerScheme) ''bearer''"
    by (simp add: EqualFold_def)
  note inst = bearer_two_prefixes [OF doc comps table entry kind sub]
  show ?thesis
    using inst [of "withAuthorization ''Bearer abc''"] inst [of "withAuthorization ''bearer abc''"]
      inst [of "withAuthorization ''Basic abc''"] inst [of noCredentials]
    by (simp add: HasPrefix_def)
qed

section \<open>The store and the handler\<close>

lemmas Atoi_simps =
  Atoi_def ParseInt_def ParseUint_def isDecimal_def unsigned_def isDigit_def digit_def
  digitsValue_def overflows_def

lemma fastLoop_None: "\<not> list_all isDigit cs \<Longrightarrow> fastLoop cs n = None"
  by (induction cs arbitrary: n) auto

lemma foldl_digits_mono: "m \<le> foldl (\<lambda>n ch. n * 10 + digit ch) m ds"
proof (induction ds arbitrary: m)
  case Nil
  show ?case by simp
next
  case (Cons d ds)
  have "m \<le> m * 10 + digit d" by simp
  also have "\<dots> \<le> foldl (\<lambda>n ch. n * 10 + digit ch) (m * 10 + digit d) ds"
    by (rule Cons.IH)
  finally show ?case by simp
qed

lemma parseUintLoop_syntax:
  "\<not> list_all isDigit cs \<Longrightarrow>
   foldl (\<lambda>n ch. n * 10 + digit ch) m (takeWhile isDigit cs) < 2 ^ 64 \<Longrightarrow>
   parseUintLoop cs m = (0, Some ErrSyntax)"
proof (induction cs arbitrary: m)
  case Nil
  then show ?case by simp
next
  case (Cons c cs)
  show ?case
  proof (cases "isDigit c")
    case False
    then show ?thesis by simp
  next
    case True
    with Cons.prems have rest: "\<not> list_all isDigit cs"
      and bound: "foldl (\<lambda>n ch. n * 10 + digit ch) (m * 10 + digit c) (takeWhile isDigit cs) < 2 ^ 64"
      by simp_all
    have "m * 10 + digit c \<le> foldl (\<lambda>n ch. n * 10 + digit ch) (m * 10 + digit c) (takeWhile isDigit cs)"
      by (rule foldl_digits_mono)
    with bound have small: "m * 10 + digit c < 2 ^ 64" by simp
    then have "\<not> m \<ge> (2 ^ 64 - 1) div 10 + 1" and "\<not> m * 10 + digit c > 2 ^ 64 - 1"
      by simp_all
    with True show ?thesis
      using Cons.IH [OF rest bound] by simp
  qed
qed

lemma rest_unsigned:
  "s \<noteq> [] \<Longrightarrow> (if hd s = CHR ''-'' \<or> hd s = CHR ''+'' then tl s else s) = unsigned s"
  by (cases s) (auto simp: unsigned_def)

lemma rest_unsigned_plus:
  "s \<noteq> [] \<Longrightarrow> (if hd s = CHR ''+'' \<or> hd s = CHR ''-'' then tl s else s) = unsigned s"
  by (cases s) (auto simp: unsigned_def)

lemma Atoi_empty: "Atoi [] = 0"
  by (simp add: Atoi_def ParseInt_def)

text \<open>
  A string that is not a decimal integer is converted to \<open>0\<close>, unless its leading
  digits run past the unsigned 64-bit range before the offending byte is read.
\<close>

lemma Atoi_not_decimal:
  assumes "\<not> isDecimal s" and "\<not> overflows s"
  shows "Atoi s = 0"
proof (cases "s = []")
  case True
  then show ?thesis by (simp add: Atoi_empty)
next
  case False
  show ?thesis
  proof (cases "unsigned s = []")
    case True
    with False show ?thesis
      by (simp add: Atoi_def ParseInt_def ParseUint_def rest_unsigned rest_unsigned_plus Let_def)
  next
    case nonempty: False
    with assms(1) have bad: "\<not> list_all isDigit (unsigned s)"
      by (simp add: isDecimal_def)
    from assms(2) have bound:
      "foldl (\<lambda>n ch. n * 10 + digit ch) 0 (takeWhile isDigit (unsigned s)) < 2 ^ 64"
      by (simp add: overflows_def digitsValue_def)
    have slow: "parseUintLoop (unsigned s) 0 = (0, Some ErrSyntax)"
      by (rule parseUintLoop_syntax [OF bad bound])
    have fast: "fastLoop (unsigned s) 0 = None"
      by (rule fastLoop_None [OF bad])
    from False nonempty show ?thesis
      by (simp add: Atoi_def ParseInt_def ParseUint_def rest_unsigned rest_unsigned_plus Let_def
            slow fast)
  qed
qed

lemma saveStore_held: "mu store \<Longrightarrow> saveStore store dataFile fs = None"
  by (simp add: saveStore_def Save_def)

lemma mockResponse_held:
  "mu store \<Longrightarrow> mockResponse c m resource store dataFile fs = (Blocks, store, fs)"
  by (simp add: mockResponse_def)

lemma records_upd:
  "records (store\<lparr>Data := (Data store)(r \<mapsto> l)\<rparr>) r' = (if r' = r then l else records store r')"
  by (simp add: records_def)

lemma records_mu [simp]: "records (store\<lparr>mu := b\<rparr>) r = records store r"
  by (simp add: records_def)

lemma records_unlock [simp]: "records (unlock store) r = records store r"
  by (simp add: unlock_def)

text \<open>
  No call writes a file, a create never returns, only a GET is ever answered
  with a payload, and no call is answered with a bare status: every create,
  and every update or delete that finds its record, ends in \<open>saveStore\<close> with the
  mutex held.
\<close>

lemma files_unchanged:
  "snd (snd (mockResponse c m resource store dataFile fs)) = fs"
  by (simp add: mockResponse_def Let_def saveStore_held split: scan.splits option.splits)

lemma create_never_returns:
  "fst (mockResponse c ''POST'' resource store dataFile fs) = Blocks
   \<or> fst (mockResponse c ''POST'' resource store dataFile fs) = Panics"
  by (simp add: mockResponse_def Let_def saveStore_held split: option.splits)

lemma only_get_responds:
  "fst (mockResponse c m resource store dataFile fs) = Respond code p \<Longrightarrow> m = ''GET''"
  by (simp add: mockResponse_def Let_def saveStore_held split: if_splits scan.splits option.splits)

lemma never_sends_status:
  "fst (mockResponse c m resource store dataFile fs) \<noteq> SendStatus code"
  by (simp add: mockResponse_def Let_def saveStore_held split: if_splits scan.splits option.splits)

lemma mockResponse_lists:
  assumes "\<not> mu store" and "Atoi (Params c ''id'') \<le> 0"
  shows "mockResponse c ''GET'' resource store dataFile fs =
     (Respond 200 (Collection (records store resource)),
      \<lparr>mu = False, Data = (Data store)(resource \<mapsto> records store resource)\<rparr>, fs)"
  using assms
  by (cases store; cases "Data store resource")
     (auto simp: mockResponse_def Let_def records_def unlock_def)

text \<open>
  Claim C10, as stated, fails.  The identifier \<open>99999999999999999999x\<close> is not
  numeric, but its digits overflow before the \<open>x\<close> is read, so \<open>strconv.Atoi\<close>
  returns the largest \<open>int\<close> with an error that line 142 discards: the handler
  searches for that identifier and answers not-found.  And when the operation
  declares \<open>id\<close> as a required path parameter, a request without it is answered
  with status 400 by step 3.
\<close>

theorem get_with_overflowing_id_searches:
  "\<not> isDecimal ''99999999999999999999x''
   \<and> handle (withId ''99999999999999999999x'') ''GET'' ''widgets''
        \<lparr>mu = False, Data = [''widgets'' \<mapsto> [[''id'' \<mapsto> VFloat64 1]]]\<rparr> ''data.json'' noFiles
        (serving None None (taking [])) []
     = (ErrNotFound, \<lparr>mu = False, Data = [''widgets'' \<mapsto> [[''id'' \<mapsto> VFloat64 1]]]\<rparr>, noFiles)
   \<and> Params noCredentials ''id'' = []
   \<and> handle noCredentials ''GET'' ''widgets''
        \<lparr>mu = False, Data = [''widgets'' \<mapsto> [[''id'' \<mapsto> VFloat64 1]]]\<rparr> ''data.json'' noFiles
        (serving None None (taking [Some idParameter])) []
     = (Rejected 400 (MissingParameter ''path'' ''id''),
        \<lparr>mu = False, Data = [''widgets'' \<mapsto> [[''id'' \<mapsto> VFloat64 1]]]\<rparr>, noFiles)"
  by (simp add: validation_simps mockResponse_def Let_def records_def unlock_def Atoi_simps
        goInt_def)

text \<open>
  Claim C10, amended.  A GET request that passes the validation steps and finds
  the store's mutex free, and whose \<open>id\<close> path parameter is absent, or is not a
  decimal integer and has no leading digits beyond the unsigned 64-bit range,
  or is converted by \<open>strconv.Atoi\<close> to an integer that is not positive, is
  answered by the handler with status 200 and the whole record list of the
  resource, not with the not-found error.  The store is left unlocked, with the
  resource's list unchanged (an unseen resource gets the empty list).
\<close>

theorem get_without_id_lists:
  assumes "validationSteps c ''GET'' openapiDoc keys = None"
    and "\<not> mu store"
    and "Params c ''id'' = []
         \<or> (\<not> isDecimal (Params c ''id'') \<and> \<not> overflows (Params c ''id''))
         \<or> Atoi (Params c ''id'') \<le> 0"
  shows "handle c ''GET'' resource store dataFile fs openapiDoc keys =
     (Respond 200 (Collection (records store resource)),
      \<lparr>mu = False, Data = (Data store)(resource \<mapsto> records store resource)\<rparr>, fs)"
proof -
  have "Atoi (Params c ''id'') \<le> 0"
    using assms(3) by (auto simp: Atoi_empty Atoi_not_decimal)
  with assms(2) have "mockResponse c ''GET'' resource store dataFile fs =
     (Respond 200 (Collection (records store resource)),
      \<lparr>mu = False, Data = (Data store)(resource \<mapsto> records store resource)\<rparr>, fs)"
    by (rule mockResponse_lists)
  with assms(1) show ?thesis
    by (simp add: handle_def)
qed

text \<open>
  Instances, on a document whose operation declares no parameters: the
  identifiers \<open>abc\<close> and \<open>-3\<close> and a missing identifier list the one stored record,
  while the well-formed identifier \<open>7\<close>, which no record has, is not found.
\<close>

theorem get_without_id_lists_witness:
  "validationSteps (withId ''abc'') ''GET'' (serving None None (taking [])) [] = None
   \<and> \<not> isDecimal (Params (withId ''abc'') ''id'') \<and> \<not> overflows (Params (withId ''abc'') ''id'')
   \<and> fst (handle (withId ''abc'') ''GET'' ''widgets''
            \<lparr>mu = False, Data = [''widgets'' \<mapsto> [[''id'' \<mapsto> VFloat64 1]]]\<rparr> ''data.json'' noFiles
            (serving None None (taking [])) [])
       = Respond 200 (Collection [[''id'' \<mapsto> VFloat64 1]])
   \<and> fst (handle (withId ''-3'') ''GET'' ''widgets''
            \<lparr>mu = False, Data = [''widgets'' \<mapsto> [[''id'' \<mapsto> VFloat64 1]]]\<rparr> ''data.json'' noFiles
            (serving None None (taking [])) [])
       = Respond 200 (Collection [[''id'' \<mapsto> VFloat64 1]])
   \<and> fst (handle noCredentials ''GET'' ''widgets''
            \<lparr>mu = False, Data = [''widgets'' \<mapsto> [[''id'' \<mapsto> VFloat64 1]]]\<rparr> ''data.json'' noFiles
            (serving None None (taking [])) [])
       = Respond 200 (Collection [[''id'' \<mapsto> VFloat64 1]])
   \<and> fst (handle (withId ''7'') ''GET'' ''widgets''
            \<lparr>mu = False, Data = [''widgets'' \<mapsto> [[''id'' \<mapsto> VFloat64 1]]]\<rparr> ''data.json'' noFiles
            (serving None None (taking [])) [])
       = ErrNotFound"
proof -
  let ?store = "\<lparr>mu = False, Data = [''widgets'' \<mapsto> [[''id'' \<mapsto> VFloat64 1]]]\<rparr>"
  let ?doc = "serving None None (taking [])"
  have free: "\<not> mu ?store"
    by simp
  have pass: "validationSteps (withId ''abc'') ''GET'' ?doc [] = None"
    "validationSteps (withId ''-3'') ''GET'' ?doc [] = None"
    "validationSteps noCredentials ''GET'' ?doc [] = None"
    by (simp_all add: validation_simps)
  have bad: "\<not> isDecimal (Params (withId ''abc'') ''id'')"
    "\<not> overflows (Params (withId ''abc'') ''id'')"
    by (simp_all add: Atoi_simps)
  then have hyp_abc: "Params (withId ''abc'') ''id'' = []
      \<or> (\<not> isDecimal (Params (withId ''abc'') ''id'') \<and> \<not> overflows (Params (withId ''abc'') ''id''))
      \<or> Atoi (Params (withId ''abc'') ''id'') \<le> 0"
    by simp
  have hyp_neg: "Params (withId ''-3'') ''id'' = []
      \<or> (\<not> isDecimal (Params (withId ''-3'') ''id'') \<and> \<not> overflows (Params (withId ''-3'') ''id''))
      \<or> Atoi (Params (withId ''-3'') ''id'') \<le> 0"
    by (simp add: Atoi_simps)
  have hyp_none: "Params noCredentials ''id'' = []
      \<or> (\<not> isDecimal (Params noCredentials ''id'') \<and> \<not> overflows (Params noCredentials ''id''))
      \<or> Atoi (Params noCredentials ''id'') \<le> 0"
    by simp
  have other: "fst (handle (withId ''7'') ''GET'' ''widgets'' ?store ''data.json'' noFiles ?doc [])
       = ErrNotFound"
    by (simp add: validation_simps mockResponse_def Let_def records_def Atoi_simps goInt_def)
  show ?thesis
    using pass(1) bad other
      get_without_id_lists [OF pass(1) free hyp_abc, of "''widgets''" "''data.json''" noFiles]
      get_without_id_lists [OF pass(2) free hyp_neg, of "''widgets''" "''data.json''" noFiles]
      get_without_id_lists [OF pass(3) free hyp_none, of "''widgets''" "''data.json''" noFiles]
    by (simp add: records_def)
qed

text \<open>
  Claim C1 does not hold of the code.  Creating \<open>{"color":"red"}\<close> in the empty
  resource \<open>widgets\<close> appends the record with \<open>id\<close> 1 to the table and then never
  returns: \<open>saveStore\<close> waits for the mutex that \<open>handle\<close> itself holds.  The
  mutex stays held, so the following get-by-id(1) never returns either.  Apart
  from the mutex, the stored \<open>id\<close> is a Go \<open>int\<close> where the lookup asserts a
  \<open>float64\<close>: on the same table with the mutex free, get-by-id(1) and delete(1)
  panic, and the record is still there.
\<close>

theorem create_blocks_then_lookup_fails:
  "mockResponse (withBody [''color'' \<mapsto> VString ''red'']) ''POST'' ''widgets''
       \<lparr>mu = False, Data = [''widgets'' \<mapsto> []]\<rparr> ''data.json'' noFiles
     = (Blocks, \<lparr>mu = True, Data = [''widgets'' \<mapsto> [redWidget]]\<rparr>, noFiles)
   \<and> fst (mockResponse (withId ''1'') ''GET'' ''widgets''
            \<lparr>mu = True, Data = [''widgets'' \<mapsto> [redWidget]]\<rparr> ''data.json'' noFiles)
     = Blocks
   \<and> fst (mockResponse (withId ''1'') ''GET'' ''widgets''
            \<lparr>mu = False, Data = [''widgets'' \<mapsto> [redWidget]]\<rparr> ''data.json'' noFiles)
     = Panics
   \<and> mockResponse (withId ''1'') ''DELETE'' ''widgets''
            \<lparr>mu = False, Data = [''widgets'' \<mapsto> [redWidget]]\<rparr> ''data.json'' noFiles
     = (Panics, \<lparr>mu = False, Data = [''widgets'' \<mapsto> [redWidget]]\<rparr>, noFiles)"
  by (simp add: mockResponse_def Let_def records_def unlock_def saveStore_def Save_def Atoi_simps)

text \<open>
  Claim C2 does not hold of the code.  With the mutex held, as it is whenever
  \<open>handle\<close> calls it, \<open>saveStore\<close> never returns and writes nothing: the create
  call below does not return, and the files are what they were.
\<close>

theorem create_never_persists:
  "saveStore \<lparr>mu = True, Data = [''gadgets'' \<mapsto> [[''id'' \<mapsto> VInt 1]]]\<rparr> ''data.json'' noFiles = None
   \<and> fst (mockResponse (withBody Map.empty) ''POST'' ''gadgets''
            \<lparr>mu = False, Data = [''gadgets'' \<mapsto> []]\<rparr> ''data.json'' noFiles)
     = Blocks
   \<and> snd (snd (mockResponse (withBody Map.empty) ''POST'' ''gadgets''
            \<lparr>mu = False, Data = [''gadgets'' \<mapsto> []]\<rparr> ''data.json'' noFiles))
     = noFiles"
  by (simp add: mockResponse_def Let_def records_def unlock_def saveStore_def Save_def)

text \<open>
  A record list that is empty never grows beyond one record, whatever requests
  are served: the first create is stuck in \<open>saveStore\<close> with the mutex held, and
  every later call waits at line 134.
\<close>

lemma settled_step:
  assumes "settled store resource"
  shows "settled (fst (snd (mockResponse c m r store dataFile fs))) resource"
proof (cases "mu store")
  case True
  then show ?thesis using assms by (simp add: mockResponse_held)
next
  case False
  with assms have empty: "records store resource = []"
    by (simp add: settled_def)
  show ?thesis
    using False empty
    by (auto simp: mockResponse_def Let_def settled_def saveStore_held records_def unlock_def
          split: scan.splits option.splits)
qed

lemma settled_handle:
  assumes "settled store resource"
  shows "settled (fst (snd (handle c m r store dataFile fs openapiDoc keys))) resource"
  using assms settled_step [OF assms, of c m r dataFile fs]
  by (simp add: handle_def split: option.splits)

lemma settled_serve:
  "settled store resource \<Longrightarrow>
   settled (fst (serve dataFile openapiDoc reqs (store, fs))) resource"
proof (induction reqs arbitrary: store fs)
  case Nil
  then show ?case by simp
next
  case (Cons r rs)
  obtain out store' fs' where step:
    "handle (reqCtx r) (reqMethod r) (reqResource r) store dataFile fs openapiDoc (reqKeys r)
       = (out, store', fs')"
    by (cases "handle (reqCtx r) (reqMethod r) (reqResource r) store dataFile fs openapiDoc (reqKeys r)")
  have "settled store' resource"
    using settled_handle [OF Cons.prems, of "reqCtx r" "reqMethod r" "reqResource r" dataFile fs
        openapiDoc "reqKeys r"]
    by (simp add: step)
  then show ?case
    by (simp add: step Cons.IH)
qed

lemma at_most_one_record:
  assumes "records store resource = []"
  shows "length (records (fst (serve dataFile openapiDoc reqs (store, fs))) resource) \<le> 1"
proof -
  have "settled store resource"
    using assms by (simp add: settled_def)
  then have "settled (fst (serve dataFile openapiDoc reqs (store, fs))) resource"
    by (rule settled_serve)
  then show ?thesis
    by (auto simp: settled_def)
qed

lemma create_appends:
  assumes "\<not> mu store" and "BodyParser c = Some parsed"
  shows "records (fst (snd (mockResponse c ''POST'' resource store dataFile fs))) resource =
     records store resource @ [parsed(''id'' \<mapsto> VInt (int (length (records store resource)) + 1))]"
  using assms
  by (auto simp: mockResponse_def Let_def saveStore_held records_def split: option.splits)

text \<open>
  Claim C3 does not hold of the code: a sequence of creates, updates and
  deletes cannot be carried out.  The first create on the empty resource
  \<open>widgets\<close> stores its record with \<open>id\<close> 1 and never returns; the second create
  waits for the mutex and assigns no \<open>id\<close>, so after two creates, a delete and a
  third create the list still holds the first record alone.  Apart from the
  mutex, an update of the created record panics like the lookup and the
  delete of claim C1, because its \<open>id\<close> is a Go \<open>int\<close>.
\<close>

theorem second_create_assigns_nothing:
  "handle (withBody [''color'' \<mapsto> VString ''red'']) ''POST'' ''widgets''
       \<lparr>mu = False, Data = [''widgets'' \<mapsto> []]\<rparr> ''data.json'' noFiles
       (serving None None (taking [])) []
     = (Blocks, \<lparr>mu = True, Data = [''widgets'' \<mapsto> [redWidget]]\<rparr>, noFiles)
   \<and> handle (withBody [''color'' \<mapsto> VString ''blue'']) ''POST'' ''widgets''
       \<lparr>mu = True, Data = [''widgets'' \<mapsto> [redWidget]]\<rparr> ''data.json'' noFiles
       (serving None None (taking [])) []
     = (Blocks, \<lparr>mu = True, Data = [''widgets'' \<mapsto> [redWidget]]\<rparr>, noFiles)
   \<and> serve ''data.json'' (serving None None (taking []))
       [\<lparr>reqCtx = withBody [''color'' \<mapsto> VString ''red''], reqMethod = ''POST'',
         reqResource = ''widgets'', reqKeys = []\<rparr>,
        \<lparr>reqCtx = withBody [''color'' \<mapsto> VString ''blue''], reqMethod = ''POST'',
         reqResource = ''widgets'', reqKeys = []\<rparr>,
        \<lparr>reqCtx = withId ''1'', reqMethod = ''DELETE'', reqResource = ''widgets'', reqKeys = []\<rparr>,
        \<lparr>reqCtx = withBody [''color'' \<mapsto> VString ''green''], reqMethod = ''POST'',
         reqResource = ''widgets'', reqKeys = []\<rparr>]
       (\<lparr>mu = False, Data = [''widgets'' \<mapsto> []]\<rparr>, noFiles)
     = (\<lparr>mu = True, Data = [''widgets'' \<mapsto> [redWidget]]\<rparr>, noFiles)
   \<and> handle (withId ''1'') ''PUT'' ''widgets''
       \<lparr>mu = False, Data = [''widgets'' \<mapsto> [redWidget]]\<rparr> ''data.json'' noFiles
       (serving None None (taking [])) []
     = (Panics, \<lparr>mu = False, Data = [''widgets'' \<mapsto> [redWidget]]\<rparr>, noFiles)"
  by (simp add: validation_simps mockResponse_def Let_def records_def unlock_def saveStore_def
        Save_def Atoi_simps)

end
